theory Spec2Isabelle
  imports Complex_Main
begin

section \<open>Decimal amounts (java.math.BigDecimal)\<close>

text \<open>
  A \<open>BigDecimal\<close> is an arbitrary-precision integer \<open>unscaledValue\<close> together with a
  \<open>scale\<close>; it denotes \<open>unscaledValue * 10 ^ (- scale)\<close>. The budget columns are
  \<open>DECIMAL(15, 2)\<close>, so stored amounts have scale 2, but the Java type admits any scale,
  and the model keeps it. Java raises an ArithmeticException when a rescaling exponent
  leaves the range of a 32-bit int; scales are unbounded integers here.
\<close>

record BigDecimal =
  unscaledValue :: int
  scale :: int

definition ZERO :: BigDecimal where
  "ZERO = \<lparr>unscaledValue = 0, scale = 0\<rparr>"

text \<open>The rational number a \<open>BigDecimal\<close> denotes.\<close>

definition decimalValue :: "BigDecimal \<Rightarrow> rat" where
  "decimalValue b = of_int (unscaledValue b) * 10 powi (- scale b)"

text \<open>\<open>setScale\<close> to a scale that is not smaller: the unscaled value gains zeros.\<close>

definition rescale :: "int \<Rightarrow> BigDecimal \<Rightarrow> int" where
  "rescale s b = unscaledValue b * 10 ^ nat (s - scale b)"

text \<open>
  \<open>this.subtract(subtrahend)\<close>: the result has scale \<open>max(this.scale(), subtrahend.scale())\<close>
  and the exact difference as its value.
\<close>

definition subtract :: "BigDecimal \<Rightarrow> BigDecimal \<Rightarrow> BigDecimal" where
  "subtract a b =
     (let s = max (scale a) (scale b)
      in \<lparr>unscaledValue = rescale s a - rescale s b, scale = s\<rparr>)"

text \<open>\<open>this.compareTo(val)\<close>: -1, 0 or 1; two amounts of different scale compare by value.\<close>

definition compareTo :: "BigDecimal \<Rightarrow> BigDecimal \<Rightarrow> int" where
  "compareTo a b =
     (let s = max (scale a) (scale b); x = rescale s a; y = rescale s b
      in if x < y then - 1 else if x = y then 0 else 1)"

section \<open>The Department entity\<close>

text \<open>
  \<open>LocalDateTime\<close>: only the year is ever read out (\<open>getYear\<close>); the rest of the
  timestamp is kept as one number.
\<close>

record LocalDateTime =
  getYear :: int
  withinYear :: nat

text \<open>
  The entity of table \<open>departments\<close>. The three amounts and the fiscal year are
  \<open>nullable = false\<close> columns; \<open>currency\<close> and \<open>updatedAt\<close> may be null, and
  \<open>createdAt\<close> is null until the entity is first persisted.
\<close>

record Department =
  id_d :: string
  name :: string
  totalBudget :: BigDecimal
  usedBudget :: BigDecimal
  reservedBudget :: BigDecimal
  fiscalYear :: int
  currency :: "string option"
  createdAt :: "LocalDateTime option"
  updatedAt :: "LocalDateTime option"

text \<open>The no-argument constructor with the field initialisers of the class.\<close>

definition newDepartment :: Department where
  "newDepartment =
     \<lparr>id_d = [], name = [], totalBudget = ZERO, usedBudget = ZERO, reservedBudget = ZERO,
      fiscalYear = 0, currency = Some ''USD'', createdAt = None, updatedAt = None\<rparr>"

text \<open>The lifecycle callbacks; the argument is what \<open>LocalDateTime.now()\<close> returns.\<close>

definition onCreate :: "LocalDateTime \<Rightarrow> Department \<Rightarrow> Department" where
  "onCreate now d = d\<lparr>createdAt := Some now, updatedAt := Some now\<rparr>"

definition onUpdate :: "LocalDateTime \<Rightarrow> Department \<Rightarrow> Department" where
  "onUpdate now d = d\<lparr>updatedAt := Some now\<rparr>"

text \<open>Available = Total - Used - Reserved.\<close>

definition getAvailableBudget :: "Department \<Rightarrow> BigDecimal" where
  "getAvailableBudget d = subtract (subtract (totalBudget d) (usedBudget d)) (reservedBudget d)"

text \<open>
  Every way the class offers to change a Department: the two callbacks and the setters
  that \<open>@Data\<close> generates, one per field.
\<close>

datatype DepartmentOp =
    OnCreate LocalDateTime
  | OnUpdate LocalDateTime
  | SetId string
  | SetName string
  | SetTotalBudget BigDecimal
  | SetUsedBudget BigDecimal
  | SetReservedBudget BigDecimal
  | SetFiscalYear int
  | SetCurrency "string option"
  | SetCreatedAt "LocalDateTime option"
  | SetUpdatedAt "LocalDateTime option"

fun applyOp :: "DepartmentOp \<Rightarrow> Department \<Rightarrow> Department" where
  "applyOp (OnCreate now) d = onCreate now d"
| "applyOp (OnUpdate now) d = onUpdate now d"
| "applyOp (SetId v) d = d\<lparr>id_d := v\<rparr>"
| "applyOp (SetName v) d = d\<lparr>name := v\<rparr>"
| "applyOp (SetTotalBudget v) d = d\<lparr>totalBudget := v\<rparr>"
| "applyOp (SetUsedBudget v) d = d\<lparr>usedBudget := v\<rparr>"
| "applyOp (SetReservedBudget v) d = d\<lparr>reservedBudget := v\<rparr>"
| "applyOp (SetFiscalYear v) d = d\<lparr>fiscalYear := v\<rparr>"
| "applyOp (SetCurrency v) d = d\<lparr>currency := v\<rparr>"
| "applyOp (SetCreatedAt v) d = d\<lparr>createdAt := v\<rparr>"
| "applyOp (SetUpdatedAt v) d = d\<lparr>updatedAt := v\<rparr>"

fun writesAmount :: "DepartmentOp \<Rightarrow> bool" where
  "writesAmount (SetTotalBudget v) = True"
| "writesAmount (SetUsedBudget v) = True"
| "writesAmount (SetReservedBudget v) = True"
| "writesAmount other = False"

text \<open>The ledger invariant of the specification, read on a Department.\<close>

definition withinBudget :: "Department \<Rightarrow> bool" where
  "withinBudget d \<longleftrightarrow>
     decimalValue (usedBudget d) + decimalValue (reservedBudget d) \<le> decimalValue (totalBudget d)"

section \<open>The availability response\<close>

record BudgetAvailabilityResponse =
  departmentId_r :: string
  departmentName_r :: string
  totalBudget_r :: BigDecimal
  usedBudget_r :: BigDecimal
  reservedBudget_r :: BigDecimal
  availableBudget_r :: BigDecimal
  fiscalYear_r :: int
  currency_r :: "string option"
  status_r :: string

text \<open>The static factory \<open>BudgetAvailabilityResponse.from(department)\<close>.\<close>

definition fromDepartment :: "Department \<Rightarrow> BudgetAvailabilityResponse" where
  "fromDepartment department =
     \<lparr>departmentId_r = id_d department,
      departmentName_r = name department,
      totalBudget_r = totalBudget department,
      usedBudget_r = usedBudget department,
      reservedBudget_r = reservedBudget department,
      availableBudget_r = getAvailableBudget department,
      fiscalYear_r = fiscalYear department,
      currency_r = currency department,
      status_r = (if compareTo (getAvailableBudget department) ZERO > 0
                  then ''available'' else ''depleted'')\<rparr>"

section \<open>The budget service\<close>

text \<open>
  An audit event is the \<open>HashMap\<close> that \<open>publishBudgetQueryEvent\<close> fills: the keys are
  distinct, so the list of the \<open>put\<close> calls is the map. The timestamp entry is the
  string form of a \<open>LocalDateTime\<close> and is represented by that time.
\<close>

datatype EventValue =
    StringValue string
  | DecimalValue BigDecimal
  | TimeString LocalDateTime

type_synonym Event = "(string \<times> EventValue) list"

datatype Exception = RuntimeException string

text \<open>
  What the service can observe or change: the rows of table \<open>departments\<close> and the
  events handed to the Kafka template, per topic, in order.
\<close>

record World =
  departments :: "Department list"
  published :: "(string \<times> Event) list"

text \<open>
  What a call depends on besides its argument: the two readings of the clock
  (\<open>LocalDateTime.now()\<close> in \<open>getAvailableBudget\<close> and in \<open>publishBudgetQueryEvent\<close>) and
  whether serialising and sending an event on a topic goes through.
\<close>

record Env =
  currentTime :: LocalDateTime
  eventTime :: LocalDateTime
  brokerAccepts :: "string \<Rightarrow> Event \<Rightarrow> bool"

text \<open>
  \<open>KafkaProducerService.sendEvent\<close>: any exception of the serialiser or of the template
  is rethrown as a RuntimeException.
\<close>

definition sendEvent :: "Env \<Rightarrow> string \<Rightarrow> Event \<Rightarrow> World \<Rightarrow> Exception + World" where
  "sendEvent env topic event w =
     (if brokerAccepts env topic event
      then Inr (w\<lparr>published := published w @ [(topic, event)]\<rparr>)
      else Inl (RuntimeException ''Failed to send Kafka event''))"

text \<open>
  Modelled from the spec: the interface \<open>DepartmentRepository\<close> is not among the sources.
  An account is identified by department identifier and fiscal period, and
  \<open>findByIdAndFiscalYear\<close> is the derived query of its name: the row whose id and fiscal
  year are the given ones, if there is one. \<open>id\<close> is the primary key of the table, so at
  most one row matches.
\<close>

definition findByIdAndFiscalYear :: "Department list \<Rightarrow> string \<Rightarrow> int \<Rightarrow> Department option" where
  "findByIdAndFiscalYear rows departmentId year =
     find (\<lambda>d. id_d d = departmentId \<and> fiscalYear d = year) rows"

text \<open>\<open>publishBudgetQueryEvent\<close>: the \<open>catch (Exception e)\<close> only logs.\<close>

definition publishBudgetQueryEvent ::
  "Env \<Rightarrow> string \<Rightarrow> BudgetAvailabilityResponse \<Rightarrow> World \<Rightarrow> World" where
  "publishBudgetQueryEvent env departmentId response w =
     (let event =
        [(''eventType'', StringValue ''BUDGET_QUERIED''),
         (''departmentId'', StringValue departmentId),
         (''availableBudget'', DecimalValue (availableBudget_r response)),
         (''totalBudget'', DecimalValue (totalBudget_r response)),
         (''timestamp'', TimeString (eventTime env)),
         (''service'', StringValue ''budget-service'')]
      in case sendEvent env ''budget.events'' event w of
           Inr w' \<Rightarrow> w'
         | Inl e \<Rightarrow> w)"

text \<open>
  \<open>BudgetService.getAvailableBudget(departmentId)\<close>: the result is the response or the
  exception thrown, together with the world after the call.
\<close>

definition getAvailableBudget_service ::
  "Env \<Rightarrow> string \<Rightarrow> World \<Rightarrow> (Exception + BudgetAvailabilityResponse) \<times> World" where
  "getAvailableBudget_service env departmentId w =
     (let currentYear = getYear (currentTime env)
      in case findByIdAndFiscalYear (departments w) departmentId currentYear of
           None \<Rightarrow> (Inl (RuntimeException (''Department not found: '' @ departmentId)), w)
         | Some department \<Rightarrow>
             (let response = fromDepartment department;
                  w' = publishBudgetQueryEvent env departmentId response w
              in (Inr response, w')))"

section \<open>Budget control: reserve\<close>

text \<open>
  Modelled from the spec: no source file implements \<open>reserve\<close>; the types and the
  operation follow sections 3 and 4.1 of the specification. Amounts are exact decimals,
  taken as rationals.
\<close>

datatype ReservationState = Reserved | Confirmed | PartiallySpent | Spent | Released | Cancelled

record Reservation =
  businessKey :: string
  amount :: rat
  state :: ReservationState
  expiry :: "nat option"

datatype AccountStatus = Active | Suspended | Closed

datatype TransactionType = Allocate | Reserve | Release | Spend | TopUp | Adjust






section \<open>Reconciliation: the three-way match\<close>

text \<open>
  Modelled from the spec: no source file implements the reconciliation engine; the
  records and \<open>match\<close> follow sections 3 and 4.4.
\<close>

datatype Verdict = Matched | WithinTolerance | Mismatch

record PurchaseOrder =
  orderId :: string
  poAmount :: rat

record ReceiptLine =
  quantityReceived :: rat
  unitPrice :: rat

record GoodsReceipt =
  receiptId :: string
  receiptLines :: "ReceiptLine list"

record Invoice =
  invoiceId :: string
  invoiceAmount :: rat

record MatchResult =
  orderId_m :: string
  receiptId_m :: string
  invoiceId_m :: string
  poAmount_m :: rat
  receiptAmount :: rat
  invoiceAmount_m :: rat
  variance :: rat
  variancePercent :: rat
  verdict :: Verdict
  tolerancePercent :: rat

text \<open>Modelled from the spec: received quantities times unit price, summed over the lines.\<close>

definition receiptAmountOf :: "GoodsReceipt \<Rightarrow> rat" where
  "receiptAmountOf receipt =
     sum_list (map (\<lambda>l. quantityReceived l * unitPrice l) (receiptLines receipt))"

text \<open>
  Modelled from the spec: \<open>match(order, receipt, invoice, tolerancePercent)\<close>. The division
  is guarded: with a receipt amount of zero no percentage is computed, and any nonzero
  invoice is a Mismatch.
\<close>

definition match :: "PurchaseOrder \<Rightarrow> GoodsReceipt \<Rightarrow> Invoice \<Rightarrow> rat \<Rightarrow> MatchResult" where
  "match order receipt invoice tolerance =
     (let received = receiptAmountOf receipt;
          v = invoiceAmount invoice - received;
          pct = (if received = 0 then 0 else \<bar>v\<bar> / received * 100)
      in \<lparr>orderId_m = orderId order,
          receiptId_m = receiptId receipt,
          invoiceId_m = invoiceId invoice,
          poAmount_m = poAmount order,
          receiptAmount = received,
          invoiceAmount_m = invoiceAmount invoice,
          variance = v,
          variancePercent = pct,
          verdict = (if v = 0 then Matched
                     else if received = 0 then Mismatch
                     else if pct \<le> tolerance then WithinTolerance
                     else Mismatch),
          tolerancePercent = tolerance\<rparr>)"

section \<open>The idempotency cache\<close>

text \<open>
  Modelled from the spec: no source file implements the idempotency cache; the record
  and \<open>execute\<close> follow sections 3 and 4.3. Times are seconds.
\<close>

record 'r IdempotencyRecord =
  requestFingerprint :: string
  responsePayload :: 'r
  createdAt_i :: nat
  expiresAt :: nat

datatype CacheError = Conflict

type_synonym 'r Cache = "string \<rightharpoonup> 'r IdempotencyRecord"

definition ttl :: nat where
  "ttl = 24 * 60 * 60"

text \<open>Modelled from the spec: a key is present until its record expires.\<close>

definition present :: "nat \<Rightarrow> 'r Cache \<Rightarrow> string \<Rightarrow> 'r IdempotencyRecord option" where
  "present now cache key =
     (case cache key of
        None \<Rightarrow> None
      | Some rec \<Rightarrow> if now < expiresAt rec then Some rec else None)"

text \<open>
  Modelled from the spec: \<open>execute(key, fingerprint, operation)\<close> at time \<open>now\<close>. The cache
  and the state \<open>w\<close> that the operation works on are passed through. One call is one
  atomic step, so the placeholder of the check-and-set is never seen by another call.
\<close>

definition execute ::
  "nat \<Rightarrow> string \<Rightarrow> string \<Rightarrow> ('w \<Rightarrow> 'r \<times> 'w) \<Rightarrow> 'r Cache \<times> 'w
     \<Rightarrow> (CacheError + 'r) \<times> ('r Cache \<times> 'w)" where
  "execute now key fingerprint operation s =
     (case present now (fst s) key of
        Some rec \<Rightarrow>
          if requestFingerprint rec = fingerprint then (Inr (responsePayload rec), s)
          else (Inl Conflict, s)
      | None \<Rightarrow>
          (let (response, w') = operation (snd s);
               rec = \<lparr>requestFingerprint = fingerprint, responsePayload = response,
                      createdAt_i = now, expiresAt = now + ttl\<rparr>
           in (Inr response, ((fst s)(key \<mapsto> rec), w'))))"

text \<open>A client retrying the same request at the given times, in order.\<close>

fun retries ::
  "nat list \<Rightarrow> string \<Rightarrow> string \<Rightarrow> ('w \<Rightarrow> 'r \<times> 'w) \<Rightarrow> 'r Cache \<times> 'w
     \<Rightarrow> (CacheError + 'r) list \<times> ('r Cache \<times> 'w)" where
  "retries [] key fingerprint operation s = ([], s)"
| "retries (t # ts) key fingerprint operation s =
     (let (r, s') = execute t key fingerprint operation s;
          (rs, s'') = retries ts key fingerprint operation s'
      in (r # rs, s''))"

section \<open>Example data\<close>

text \<open>
  Two rows of table \<open>departments\<close> for fiscal year 2026: IT with 10000.00 allocated,
  2500.50 used and 1000 reserved; HR with 100.00 allocated, 60.00 used and 40.00 reserved.
\<close>

definition itDepartment :: Department where
  "itDepartment =
     \<lparr>id_d = ''IT'', name = ''Information Technology'',
      totalBudget = \<lparr>unscaledValue = 1000000, scale = 2\<rparr>,
      usedBudget = \<lparr>unscaledValue = 250050, scale = 2\<rparr>,
      reservedBudget = \<lparr>unscaledValue = 1000, scale = 0\<rparr>,
      fiscalYear = 2026, currency = Some ''USD'', createdAt = None, updatedAt = None\<rparr>"

definition hrDepartment :: Department where
  "hrDepartment =
     \<lparr>id_d = ''HR'', name = ''Human Resources'',
      totalBudget = \<lparr>unscaledValue = 10000, scale = 2\<rparr>,
      usedBudget = \<lparr>unscaledValue = 6000, scale = 2\<rparr>,
      reservedBudget = \<lparr>unscaledValue = 4000, scale = 2\<rparr>,
      fiscalYear = 2026, currency = Some ''USD'', createdAt = None, updatedAt = None\<rparr>"

definition exampleWorld :: World where
  "exampleWorld = \<lparr>departments = [itDepartment, hrDepartment], published = []\<rparr>"

definition exampleEnv :: Env where
  "exampleEnv =
     \<lparr>currentTime = \<lparr>getYear = 2026, withinYear = 0\<rparr>,
      eventTime = \<lparr>getYear = 2026, withinYear = 1\<rparr>,
      brokerAccepts = (\<lambda>topic event. True)\<rparr>"


text \<open>An order, a receipt of 8 units at 100 and 4 units at 50, and an invoice of a given amount.\<close>

definition exampleOrder :: PurchaseOrder where
  "exampleOrder = \<lparr>orderId = ''PO-1'', poAmount = 1000\<rparr>"

definition exampleReceipt :: GoodsReceipt where
  "exampleReceipt =
     \<lparr>receiptId = ''GRN-1'',
      receiptLines = [\<lparr>quantityReceived = 8, unitPrice = 100\<rparr>,
                      \<lparr>quantityReceived = 4, unitPrice = 50\<rparr>]\<rparr>"

definition exampleInvoice :: "rat \<Rightarrow> Invoice" where
  "exampleInvoice a = \<lparr>invoiceId = ''INV-1'', invoiceAmount = a\<rparr>"

text \<open>An operation with a visible side effect: it counts its own executions.\<close>

definition countingOperation :: "nat \<Rightarrow> string \<times> nat" where
  "countingOperation n = (''created'', n + 1)"

section \<open>Decimal arithmetic is exact\<close>

lemma rescale_value:
  assumes "scale b \<le> s"
  shows "(of_int (rescale s b) :: rat) * 10 powi (- s) = decimalValue b"
proof -
  have "(10::rat) ^ nat (s - scale b) = 10 powi (s - scale b)"
    using assms by (simp add: power_int_def)
  moreover have "(10::rat) powi (s - scale b) * 10 powi (- s) = 10 powi (- scale b)"
    by (simp flip: power_int_add)
  ultimately show ?thesis
    by (simp add: rescale_def decimalValue_def mult.assoc)
qed

lemma subtract_value: "decimalValue (subtract a b) = decimalValue a - decimalValue b"
proof -
  let ?s = "max (scale a) (scale b)"
  have "decimalValue (subtract a b) =
          (of_int (rescale ?s a) - of_int (rescale ?s b)) * 10 powi (- ?s)"
    by (simp add: subtract_def decimalValue_def Let_def)
  also have "\<dots> = of_int (rescale ?s a) * 10 powi (- ?s) - of_int (rescale ?s b) * 10 powi (- ?s)"
    by (simp add: algebra_simps)
  also have "\<dots> = decimalValue a - decimalValue b"
    by (simp add: rescale_value)
  finally show ?thesis .
qed

lemma subtract_scale: "scale (subtract a b) = max (scale a) (scale b)"
  by (simp add: subtract_def Let_def)

lemma rescale_less:
  assumes "scale a \<le> s" "scale b \<le> s"
  shows "rescale s a < rescale s b \<longleftrightarrow> decimalValue a < decimalValue b"
proof -
  have pos: "(0::rat) < 10 powi (- s)" by (simp add: power_int_def)
  have "decimalValue a < decimalValue b \<longleftrightarrow>
        (of_int (rescale s a) :: rat) * 10 powi (- s) < of_int (rescale s b) * 10 powi (- s)"
    using assms by (simp only: rescale_value)
  also have "\<dots> \<longleftrightarrow> (of_int (rescale s a) :: rat) < of_int (rescale s b)"
    using pos by (simp only: mult_less_cancel_right_pos)
  also have "\<dots> \<longleftrightarrow> rescale s a < rescale s b" by simp
  finally show ?thesis by simp
qed

lemma compareTo_positive: "0 < compareTo a b \<longleftrightarrow> decimalValue b < decimalValue a"
proof -
  let ?s = "max (scale a) (scale b)"
  have "0 < compareTo a b \<longleftrightarrow> rescale ?s b < rescale ?s a"
    by (auto simp: compareTo_def Let_def)
  also have "\<dots> \<longleftrightarrow> decimalValue b < decimalValue a"
    by (rule rescale_less) simp_all
  finally show ?thesis .
qed

lemma compareTo_nonpositive: "compareTo a b \<le> 0 \<longleftrightarrow> decimalValue a \<le> decimalValue b"
  using compareTo_positive [of a b] by (simp add: not_less [symmetric])

lemma ZERO_value: "decimalValue ZERO = 0"
  by (simp add: ZERO_def decimalValue_def)

lemma getAvailableBudget_value:
  "decimalValue (getAvailableBudget d) =
     decimalValue (totalBudget d) - decimalValue (usedBudget d) - decimalValue (reservedBudget d)"
  by (simp add: getAvailableBudget_def subtract_value)

lemma getAvailableBudget_scale:
  "scale (getAvailableBudget d) =
     max (max (scale (totalBudget d)) (scale (usedBudget d))) (scale (reservedBudget d))"
  by (simp add: getAvailableBudget_def subtract_scale)

section \<open>What the budget service does to the world\<close>

lemma publish_departments:
  "departments (publishBudgetQueryEvent env i r w) = departments w"
  by (simp add: publishBudgetQueryEvent_def sendEvent_def Let_def)

lemma service_departments:
  "departments (snd (getAvailableBudget_service env i w)) = departments w"
  by (simp add: getAvailableBudget_service_def Let_def publish_departments split: option.split)

lemma service_result:
  "fst (getAvailableBudget_service env i w) =
     (case findByIdAndFiscalYear (departments w) i (getYear (currentTime env)) of
        None \<Rightarrow> Inl (RuntimeException (''Department not found: '' @ i))
      | Some d \<Rightarrow> Inr (fromDepartment d))"
  by (simp add: getAvailableBudget_service_def Let_def split: option.split)

lemma service_failure_world:
  "findByIdAndFiscalYear (departments w) i (getYear (currentTime env)) = None \<Longrightarrow>
     snd (getAvailableBudget_service env i w) = w"
  by (simp add: getAvailableBudget_service_def)

lemma find_None_iff_row:
  "findByIdAndFiscalYear rows i y = None \<longleftrightarrow>
     \<not> (\<exists>d\<in>set rows. id_d d = i \<and> fiscalYear d = y)"
  by (auto simp: findByIdAndFiscalYear_def find_None_iff)

lemma find_Some_row:
  "findByIdAndFiscalYear rows i y = Some d \<Longrightarrow>
     d \<in> set rows \<and> id_d d = i \<and> fiscalYear d = y"
  by (auto simp: findByIdAndFiscalYear_def find_Some_iff)

section \<open>The ledger invariant on Department\<close>

lemma applyOp_amounts:
  "\<not> writesAmount op \<Longrightarrow>
     totalBudget (applyOp op d) = totalBudget d \<and>
     usedBudget (applyOp op d) = usedBudget d \<and>
     reservedBudget (applyOp op d) = reservedBudget d"
  by (cases op) (simp_all add: onCreate_def onUpdate_def)

lemma applyOp_withinBudget:
  "\<not> writesAmount op \<Longrightarrow> withinBudget (applyOp op d) = withinBudget d"
  by (simp add: withinBudget_def applyOp_amounts)

lemma fold_applyOp_withinBudget:
  "\<forall>op\<in>set ops. \<not> writesAmount op \<Longrightarrow> withinBudget (fold applyOp ops d) = withinBudget d"
  by (induction ops arbitrary: d) (simp_all add: applyOp_withinBudget)

lemma withinBudget_available:
  "withinBudget d \<longleftrightarrow> 0 \<le> decimalValue (getAvailableBudget d)"
  by (auto simp: withinBudget_def getAvailableBudget_value)

lemma withinBudget_newDepartment: "withinBudget newDepartment"
  by (simp add: withinBudget_def newDepartment_def ZERO_def decimalValue_def)

lemma withinBudget_examples: "list_all withinBudget (departments exampleWorld)"
  by (simp add: exampleWorld_def withinBudget_def itDepartment_def hrDepartment_def
      decimalValue_def power_int_minus)

text \<open>
  C1, as stated, fails: the setters of the three amounts check nothing. A new Department
  satisfies \<open>used + reserved \<le> total\<close> (all three are zero), and \<open>setUsedBudget(1)\<close> on it
  gives a Department that does not.
\<close>

theorem withinBudget_setter_counterexample:
  "withinBudget newDepartment \<and>
   \<not> withinBudget (applyOp (SetUsedBudget \<lparr>unscaledValue = 1, scale = 0\<rparr>) newDepartment)"
  by (simp add: withinBudget_def newDepartment_def ZERO_def decimalValue_def)

text \<open>
  C1, amended: every operation on a Department other than the setters of the three
  amounts (the callbacks \<open>onCreate\<close> and \<open>onUpdate\<close> and the setters of the other fields)
  preserves \<open>used + reserved \<le> total\<close>, so that after any sequence of them on a
  Department that satisfied it the available budget is not negative; and the
  availability query of the service leaves every row within its budget.
\<close>

theorem withinBudget_preserved:
  assumes "\<forall>op\<in>set ops. \<not> writesAmount op" and "withinBudget d"
  shows "withinBudget (fold applyOp ops d) \<and>
         0 \<le> decimalValue (getAvailableBudget (fold applyOp ops d)) \<and>
         (list_all withinBudget (departments w) \<longrightarrow>
            list_all withinBudget (departments (snd (getAvailableBudget_service env i w))))"
  using assms
  by (simp add: fold_applyOp_withinBudget service_departments flip: withinBudget_available)

theorem withinBudget_preserved_witness:
  "withinBudget newDepartment \<and>
   withinBudget (fold applyOp
     [OnCreate \<lparr>getYear = 2026, withinYear = 0\<rparr>, SetName ''IT'', SetFiscalYear 2026,
      OnUpdate \<lparr>getYear = 2026, withinYear = 1\<rparr>] newDepartment) \<and>
   list_all withinBudget (departments exampleWorld) \<and>
   list_all withinBudget (departments (snd (getAvailableBudget_service exampleEnv ''IT'' exampleWorld)))"
proof -
  have ops: "\<forall>op\<in>set [OnCreate \<lparr>getYear = 2026, withinYear = 0\<rparr>, SetName ''IT'',
      SetFiscalYear 2026, OnUpdate \<lparr>getYear = 2026, withinYear = 1\<rparr>]. \<not> writesAmount op"
    by simp
  show ?thesis
    using withinBudget_preserved [OF ops withinBudget_newDepartment,
        of exampleWorld exampleEnv "''IT''"]
      withinBudget_newDepartment withinBudget_examples
    by blast
qed

section \<open>The availability query is read-only\<close>

text \<open>
  C3: \<open>getAvailableBudget\<close> of the service is read-only on the ledger: for every department
  identifier, every clock and every behaviour of the broker, the rows of table
  \<open>departments\<close> after the call are the rows before it.
\<close>

theorem getAvailableBudget_readonly:
  "departments (snd (getAvailableBudget_service env departmentId w)) = departments w"
  by (simp add: getAvailableBudget_service_def Let_def publishBudgetQueryEvent_def
      sendEvent_def split: option.split)

section \<open>The reported available amount\<close>

lemma find_IT: "findByIdAndFiscalYear (departments exampleWorld) ''IT'' (getYear (currentTime exampleEnv)) = Some itDepartment"
  by (simp add: findByIdAndFiscalYear_def exampleWorld_def exampleEnv_def itDepartment_def)

lemma itDepartment_available:
  "getAvailableBudget itDepartment = \<lparr>unscaledValue = 649950, scale = 2\<rparr>"
  by (simp add: getAvailableBudget_def itDepartment_def subtract_def rescale_def Let_def)

text \<open>
  C2: for every department record that the availability query finds, the reported
  available amount is \<open>totalBudget.subtract(usedBudget).subtract(reservedBudget)\<close>, and as a
  number it is exactly total minus used minus reserved: decimal subtraction aligns the
  scales and subtracts integers, with no rounding (the result has the largest of the
  three scales).
\<close>

theorem availableBudget_exact:
  assumes "findByIdAndFiscalYear (departments w) departmentId (getYear (currentTime env)) = Some d"
  shows "\<exists>r. fst (getAvailableBudget_service env departmentId w) = Inr r \<and>
           availableBudget_r r = subtract (subtract (totalBudget d) (usedBudget d)) (reservedBudget d) \<and>
           decimalValue (availableBudget_r r) =
             decimalValue (totalBudget d) - decimalValue (usedBudget d) - decimalValue (reservedBudget d) \<and>
           scale (availableBudget_r r) =
             max (max (scale (totalBudget d)) (scale (usedBudget d))) (scale (reservedBudget d))"
  using assms
  by (simp add: service_result fromDepartment_def getAvailableBudget_value getAvailableBudget_scale)
     (simp add: getAvailableBudget_def)

theorem availableBudget_exact_witness:
  "findByIdAndFiscalYear (departments exampleWorld) ''IT'' (getYear (currentTime exampleEnv)) = Some itDepartment \<and>
   (\<exists>r. fst (getAvailableBudget_service exampleEnv ''IT'' exampleWorld) = Inr r \<and>
        availableBudget_r r = \<lparr>unscaledValue = 649950, scale = 2\<rparr> \<and>
        decimalValue (availableBudget_r r) = 12999 / 2)"
proof -
  have "decimalValue \<lparr>unscaledValue = 649950, scale = 2\<rparr> = 12999 / 2"
    by (simp add: decimalValue_def power_int_minus)
  then show ?thesis
    using availableBudget_exact [OF find_IT] find_IT itDepartment_available
    by (auto simp: getAvailableBudget_def)
qed

section \<open>The shape of the availability response\<close>

lemma itDepartment_small_amount:
  "decimalValue \<lparr>unscaledValue = 100, scale = 2\<rparr>
     \<le> decimalValue (availableBudget_r (fromDepartment itDepartment))"
  by (simp add: fromDepartment_def itDepartment_available decimalValue_def power_int_minus)

lemma itDepartment_large_amount:
  "\<not> decimalValue \<lparr>unscaledValue = 700000, scale = 2\<rparr>
       \<le> decimalValue (availableBudget_r (fromDepartment itDepartment))"
  by (simp add: fromDepartment_def itDepartment_available decimalValue_def power_int_minus)

text \<open>
  C4, as stated, fails: the query takes a department identifier and no amount, so its
  response is one record whatever amount the caller has in mind. For department IT
  (6499.50 available) an amount of 1.00 is covered and an amount of 7000.00 is not, and
  no field of the one response, boolean or other, can say for each requested amount
  whether it is at most the available amount.
\<close>

theorem availability_no_sufficient_counterexample:
  "fst (getAvailableBudget_service exampleEnv ''IT'' exampleWorld) = Inr (fromDepartment itDepartment) \<and>
   decimalValue \<lparr>unscaledValue = 100, scale = 2\<rparr>
     \<le> decimalValue (availableBudget_r (fromDepartment itDepartment)) \<and>
   \<not> decimalValue \<lparr>unscaledValue = 700000, scale = 2\<rparr>
       \<le> decimalValue (availableBudget_r (fromDepartment itDepartment)) \<and>
   \<not> (\<exists>sufficient :: BudgetAvailabilityResponse \<Rightarrow> bool.
         \<forall>amount. sufficient (fromDepartment itDepartment) \<longleftrightarrow>
           decimalValue amount \<le> decimalValue (availableBudget_r (fromDepartment itDepartment)))"
proof (intro conjI)
  show "fst (getAvailableBudget_service exampleEnv ''IT'' exampleWorld) =
      Inr (fromDepartment itDepartment)"
    by (simp add: service_result find_IT)
next
  show "decimalValue \<lparr>unscaledValue = 100, scale = 2\<rparr>
     \<le> decimalValue (availableBudget_r (fromDepartment itDepartment))"
    by (rule itDepartment_small_amount)
next
  show "\<not> decimalValue \<lparr>unscaledValue = 700000, scale = 2\<rparr>
       \<le> decimalValue (availableBudget_r (fromDepartment itDepartment))"
    by (rule itDepartment_large_amount)
next
  show "\<not> (\<exists>sufficient :: BudgetAvailabilityResponse \<Rightarrow> bool.
         \<forall>amount. sufficient (fromDepartment itDepartment) \<longleftrightarrow>
           decimalValue amount \<le> decimalValue (availableBudget_r (fromDepartment itDepartment)))"
  proof
    assume "\<exists>sufficient :: BudgetAvailabilityResponse \<Rightarrow> bool.
         \<forall>amount. sufficient (fromDepartment itDepartment) \<longleftrightarrow>
           decimalValue amount \<le> decimalValue (availableBudget_r (fromDepartment itDepartment))"
    then obtain sufficient :: "BudgetAvailabilityResponse \<Rightarrow> bool" where
      s: "\<And>amount. sufficient (fromDepartment itDepartment) \<longleftrightarrow>
           decimalValue amount \<le> decimalValue (availableBudget_r (fromDepartment itDepartment))"
      by blast
    from s [of "\<lparr>unscaledValue = 100, scale = 2\<rparr>"] itDepartment_small_amount
    have "sufficient (fromDepartment itDepartment)" by simp
    moreover from s [of "\<lparr>unscaledValue = 700000, scale = 2\<rparr>"] itDepartment_large_amount
    have "\<not> sufficient (fromDepartment itDepartment)" by simp
    ultimately show False by simp
  qed
qed

text \<open>
  C4, amended: the availability query takes a department identifier only and returns,
  for the row of that department in the current year, a typed record, never a bare
  boolean: its decimal field \<open>availableBudget\<close> is the row's total minus used minus
  reserved, and its string field \<open>status\<close> is \<open>available\<close> when that amount is greater than
  zero and \<open>depleted\<close> otherwise. There is no field \<open>sufficient\<close>: an amount is at most the
  available amount exactly when comparing it with the returned \<open>availableBudget\<close> gives
  at most zero.
\<close>

theorem availability_response_typed:
  assumes "findByIdAndFiscalYear (departments w) departmentId (getYear (currentTime env)) = Some d"
  shows "\<exists>r. fst (getAvailableBudget_service env departmentId w) = Inr r \<and>
           decimalValue (availableBudget_r r) =
             decimalValue (totalBudget d) - decimalValue (usedBudget d)
               - decimalValue (reservedBudget d) \<and>
           status_r r =
             (if 0 < decimalValue (totalBudget d) - decimalValue (usedBudget d)
                       - decimalValue (reservedBudget d)
              then ''available'' else ''depleted'') \<and>
           (\<forall>amount. compareTo amount (availableBudget_r r) \<le> 0 \<longleftrightarrow>
              decimalValue amount \<le> decimalValue (totalBudget d) - decimalValue (usedBudget d)
                - decimalValue (reservedBudget d))"
  using assms
  by (simp add: service_result fromDepartment_def compareTo_positive compareTo_nonpositive
      ZERO_value getAvailableBudget_value)

theorem availability_response_typed_witness:
  "findByIdAndFiscalYear (departments exampleWorld) ''IT'' (getYear (currentTime exampleEnv))
     = Some itDepartment \<and>
   (\<exists>r. fst (getAvailableBudget_service exampleEnv ''IT'' exampleWorld) = Inr r \<and>
        decimalValue (availableBudget_r r) = 12999 / 2 \<and>
        status_r r = ''available'' \<and>
        compareTo \<lparr>unscaledValue = 100, scale = 2\<rparr> (availableBudget_r r) \<le> 0 \<and>
        \<not> compareTo \<lparr>unscaledValue = 700000, scale = 2\<rparr> (availableBudget_r r) \<le> 0)"
proof -
  have v: "decimalValue (totalBudget itDepartment) - decimalValue (usedBudget itDepartment)
      - decimalValue (reservedBudget itDepartment) = 12999 / 2"
    by (simp add: itDepartment_def decimalValue_def power_int_minus)
  have a: "decimalValue \<lparr>unscaledValue = 100, scale = 2\<rparr> = 1"
    "decimalValue \<lparr>unscaledValue = 700000, scale = 2\<rparr> = 7000"
    by (simp_all add: decimalValue_def power_int_minus)
  from availability_response_typed [OF find_IT]
  obtain r where r: "fst (getAvailableBudget_service exampleEnv ''IT'' exampleWorld) = Inr r"
    and av: "decimalValue (availableBudget_r r) = 12999 / 2"
    and st: "status_r r = ''available''"
    and cmp: "\<And>amount. compareTo amount (availableBudget_r r) \<le> 0 \<longleftrightarrow>
       decimalValue amount \<le> 12999 / 2"
    unfolding v by auto
  from cmp [of "\<lparr>unscaledValue = 100, scale = 2\<rparr>"]
    cmp [of "\<lparr>unscaledValue = 700000, scale = 2\<rparr>"] a
  have "compareTo \<lparr>unscaledValue = 100, scale = 2\<rparr> (availableBudget_r r) \<le> 0"
    and "\<not> compareTo \<lparr>unscaledValue = 700000, scale = 2\<rparr> (availableBudget_r r) \<le> 0"
    by simp_all
  with r av st find_IT show ?thesis by blast
qed

section \<open>When the availability query fails\<close>

text \<open>
  C8: \<open>getAvailableBudget(departmentId)\<close> throws (a RuntimeException "Department not found")
  if and only if table \<open>departments\<close> has no row with that id and the current year as its
  fiscal year; when it throws, the world is unchanged; when it does not, it returns a
  response whose every field is populated from such a row: id, name, the three amounts,
  fiscal year and currency are the row's, the available amount is the row's total minus
  used minus reserved, and the status tells whether that is greater than zero.
\<close>

theorem getAvailableBudget_fails_iff:
  "(fst (getAvailableBudget_service env departmentId w) =
      Inl (RuntimeException (''Department not found: '' @ departmentId)) \<longleftrightarrow>
    \<not> (\<exists>d\<in>set (departments w). id_d d = departmentId \<and> fiscalYear d = getYear (currentTime env))) \<and>
   (isl (fst (getAvailableBudget_service env departmentId w)) \<longleftrightarrow>
    \<not> (\<exists>d\<in>set (departments w). id_d d = departmentId \<and> fiscalYear d = getYear (currentTime env))) \<and>
   (isl (fst (getAvailableBudget_service env departmentId w)) \<longrightarrow>
      snd (getAvailableBudget_service env departmentId w) = w) \<and>
   (\<not> isl (fst (getAvailableBudget_service env departmentId w)) \<longrightarrow>
      (\<exists>d\<in>set (departments w). id_d d = departmentId \<and> fiscalYear d = getYear (currentTime env) \<and>
         fst (getAvailableBudget_service env departmentId w) = Inr (fromDepartment d) \<and>
         (\<exists>r. fst (getAvailableBudget_service env departmentId w) = Inr r \<and>
            departmentId_r r = departmentId \<and>
            departmentName_r r = name d \<and>
            totalBudget_r r = totalBudget d \<and>
            usedBudget_r r = usedBudget d \<and>
            reservedBudget_r r = reservedBudget d \<and>
            availableBudget_r r =
              subtract (subtract (totalBudget d) (usedBudget d)) (reservedBudget d) \<and>
            fiscalYear_r r = getYear (currentTime env) \<and>
            currency_r r = currency d \<and>
            status_r r =
              (if 0 < decimalValue (totalBudget d) - decimalValue (usedBudget d)
                        - decimalValue (reservedBudget d)
               then ''available'' else ''depleted''))))"
proof (cases "findByIdAndFiscalYear (departments w) departmentId (getYear (currentTime env))")
  case None
  then show ?thesis
    using find_None_iff_row [of "departments w" departmentId "getYear (currentTime env)"]
    by (simp add: service_result service_failure_world)
next
  case (Some d)
  have fields: "departmentId_r (fromDepartment d) = id_d d \<and>
      departmentName_r (fromDepartment d) = name d \<and>
      totalBudget_r (fromDepartment d) = totalBudget d \<and>
      usedBudget_r (fromDepartment d) = usedBudget d \<and>
      reservedBudget_r (fromDepartment d) = reservedBudget d \<and>
      availableBudget_r (fromDepartment d) =
        subtract (subtract (totalBudget d) (usedBudget d)) (reservedBudget d) \<and>
      fiscalYear_r (fromDepartment d) = fiscalYear d \<and>
      currency_r (fromDepartment d) = currency d \<and>
      status_r (fromDepartment d) =
        (if 0 < decimalValue (totalBudget d) - decimalValue (usedBudget d)
                  - decimalValue (reservedBudget d)
         then ''available'' else ''depleted'')"
    by (simp add: fromDepartment_def compareTo_positive ZERO_value getAvailableBudget_value)
       (simp add: getAvailableBudget_def)
  from Some fields show ?thesis
    using find_None_iff_row [of "departments w" departmentId "getYear (currentTime env)"]
      find_Some_row [OF Some]
    by (auto simp: service_result)
qed

theorem getAvailableBudget_fails_iff_witness:
  "fst (getAvailableBudget_service exampleEnv ''XX'' exampleWorld) =
     Inl (RuntimeException ''Department not found: XX'') \<and>
   snd (getAvailableBudget_service exampleEnv ''XX'' exampleWorld) = exampleWorld \<and>
   fst (getAvailableBudget_service exampleEnv ''IT'' exampleWorld) =
     Inr \<lparr>departmentId_r = ''IT'', departmentName_r = ''Information Technology'',
          totalBudget_r = \<lparr>unscaledValue = 1000000, scale = 2\<rparr>,
          usedBudget_r = \<lparr>unscaledValue = 250050, scale = 2\<rparr>,
          reservedBudget_r = \<lparr>unscaledValue = 1000, scale = 0\<rparr>,
          availableBudget_r = \<lparr>unscaledValue = 649950, scale = 2\<rparr>,
          fiscalYear_r = 2026, currency_r = Some ''USD'', status_r = ''available''\<rparr>"
proof -
  have xx: "\<not> (\<exists>d\<in>set (departments exampleWorld).
      id_d d = ''XX'' \<and> fiscalYear d = getYear (currentTime exampleEnv))"
    by (simp add: exampleWorld_def itDepartment_def hrDepartment_def)
  have it: "\<exists>d\<in>set (departments exampleWorld).
      id_d d = ''IT'' \<and> fiscalYear d = getYear (currentTime exampleEnv)"
    by (simp add: exampleWorld_def exampleEnv_def itDepartment_def hrDepartment_def)
  have only: "\<And>d. d \<in> set (departments exampleWorld) \<Longrightarrow> id_d d = ''IT'' \<Longrightarrow> d = itDepartment"
    by (auto simp: exampleWorld_def hrDepartment_def)
  have v: "0 < decimalValue (totalBudget itDepartment) - decimalValue (usedBudget itDepartment)
      - decimalValue (reservedBudget itDepartment)"
    by (simp add: itDepartment_def decimalValue_def power_int_minus)
  have y: "getYear (currentTime exampleEnv) = 2026"
    by (simp add: exampleEnv_def)
  from getAvailableBudget_fails_iff [of exampleEnv "''XX''" exampleWorld] xx
  have 1: "fst (getAvailableBudget_service exampleEnv ''XX'' exampleWorld) =
     Inl (RuntimeException ''Department not found: XX'')"
    and 2: "snd (getAvailableBudget_service exampleEnv ''XX'' exampleWorld) = exampleWorld"
    by simp_all
  from getAvailableBudget_fails_iff [of exampleEnv "''IT''" exampleWorld] it
  obtain d r where d: "d \<in> set (departments exampleWorld)" "id_d d = ''IT''"
    and r: "fst (getAvailableBudget_service exampleEnv ''IT'' exampleWorld) = Inr r"
    and f: "departmentId_r r = ''IT''" "departmentName_r r = name d"
      "totalBudget_r r = totalBudget d" "usedBudget_r r = usedBudget d"
      "reservedBudget_r r = reservedBudget d"
      "availableBudget_r r = subtract (subtract (totalBudget d) (usedBudget d)) (reservedBudget d)"
      "fiscalYear_r r = getYear (currentTime exampleEnv)" "currency_r r = currency d"
      "status_r r = (if 0 < decimalValue (totalBudget d) - decimalValue (usedBudget d)
                        - decimalValue (reservedBudget d)
               then ''available'' else ''depleted'')"
    by blast
  from only [OF d] have d': "d = itDepartment" .
  have a: "subtract (subtract (totalBudget itDepartment) (usedBudget itDepartment))
      (reservedBudget itDepartment) = \<lparr>unscaledValue = 649950, scale = 2\<rparr>"
    using itDepartment_available by (simp add: getAvailableBudget_def)
  have "r = \<lparr>departmentId_r = ''IT'', departmentName_r = ''Information Technology'',
          totalBudget_r = \<lparr>unscaledValue = 1000000, scale = 2\<rparr>,
          usedBudget_r = \<lparr>unscaledValue = 250050, scale = 2\<rparr>,
          reservedBudget_r = \<lparr>unscaledValue = 1000, scale = 0\<rparr>,
          availableBudget_r = \<lparr>unscaledValue = 649950, scale = 2\<rparr>,
          fiscalYear_r = 2026, currency_r = Some ''USD'', status_r = ''available''\<rparr>"
    using f v y a unfolding d' by (cases r) (simp add: itDepartment_def)
  with 1 2 r show ?thesis by simp
qed

section \<open>The response does not depend on the audit event\<close>

text \<open>
  C9: the result of \<open>getAvailableBudget\<close> (the response or the exception) is the same
  whether the broker accepts the audit event or refuses it, and whatever the time of the
  event: an exception of the publish is caught and only logged.
\<close>

theorem response_independent_of_publish:
  "fst (getAvailableBudget_service (env\<lparr>eventTime := t1, brokerAccepts := b1\<rparr>) departmentId w) =
   fst (getAvailableBudget_service (env\<lparr>eventTime := t2, brokerAccepts := b2\<rparr>) departmentId w)"
  by (simp add: getAvailableBudget_service_def Let_def split: option.split)

section \<open>The status field\<close>

text \<open>
  C10: the status of the response is \<open>available\<close> if and only if total minus used minus
  reserved is greater than zero, and \<open>depleted\<close> otherwise; in particular a department whose
  available budget is exactly zero is reported as \<open>depleted\<close>.
\<close>

theorem status_available_iff:
  "(status_r (fromDepartment d) = ''available'' \<longleftrightarrow>
      0 < decimalValue (totalBudget d) - decimalValue (usedBudget d) - decimalValue (reservedBudget d)) \<and>
   (status_r (fromDepartment d) = ''depleted'' \<longleftrightarrow>
      \<not> 0 < decimalValue (totalBudget d) - decimalValue (usedBudget d) - decimalValue (reservedBudget d)) \<and>
   (decimalValue (totalBudget d) - decimalValue (usedBudget d) - decimalValue (reservedBudget d) = 0 \<longrightarrow>
      status_r (fromDepartment d) = ''depleted'')"
  by (simp add: fromDepartment_def compareTo_positive ZERO_value getAvailableBudget_value)

theorem status_available_iff_witness:
  "decimalValue (totalBudget hrDepartment) - decimalValue (usedBudget hrDepartment)
     - decimalValue (reservedBudget hrDepartment) = 0 \<and>
   status_r (fromDepartment hrDepartment) = ''depleted'' \<and>
   status_r (fromDepartment itDepartment) = ''available''"
proof -
  have hr: "decimalValue (totalBudget hrDepartment) - decimalValue (usedBudget hrDepartment)
     - decimalValue (reservedBudget hrDepartment) = 0"
    by (simp add: hrDepartment_def decimalValue_def power_int_minus)
  have it: "0 < decimalValue (totalBudget itDepartment) - decimalValue (usedBudget itDepartment)
     - decimalValue (reservedBudget itDepartment)"
    by (simp add: itDepartment_def decimalValue_def power_int_minus)
  show ?thesis
    using status_available_iff [of hrDepartment] status_available_iff [of itDepartment] hr it
    by simp
qed

section \<open>reserve is idempotent per business key\<close>





section \<open>The verdict of the three-way match\<close>

lemma exampleReceipt_amount: "receiptAmountOf exampleReceipt = 1000"
  by (simp add: receiptAmountOf_def exampleReceipt_def)

text \<open>
  C6: the verdict of \<open>match\<close> is Matched exactly when invoice amount minus receipt amount is
  zero; WithinTolerance exactly when it is not zero, the receipt amount is not zero and the
  absolute variance as a percentage of the receipt amount is at most the tolerance;
  Mismatch otherwise, in particular for a receipt amount of zero and a nonzero invoice.
  With a receipt amount of 1000 and a tolerance of 5, an invoice of 1049 is
  WithinTolerance and an invoice of 1051 is a Mismatch.
\<close>

theorem match_verdict:
  "(verdict (match order receipt invoice tolerance) = Matched \<longleftrightarrow>
      invoiceAmount invoice - receiptAmountOf receipt = 0) \<and>
   (verdict (match order receipt invoice tolerance) = WithinTolerance \<longleftrightarrow>
      invoiceAmount invoice - receiptAmountOf receipt \<noteq> 0 \<and> receiptAmountOf receipt \<noteq> 0 \<and>
      \<bar>invoiceAmount invoice - receiptAmountOf receipt\<bar> / receiptAmountOf receipt * 100 \<le> tolerance) \<and>
   (verdict (match order receipt invoice tolerance) = Mismatch \<longleftrightarrow>
      invoiceAmount invoice - receiptAmountOf receipt \<noteq> 0 \<and>
      (receiptAmountOf receipt = 0 \<or>
       tolerance < \<bar>invoiceAmount invoice - receiptAmountOf receipt\<bar> / receiptAmountOf receipt * 100)) \<and>
   (receiptAmountOf receipt = 0 \<and> invoiceAmount invoice \<noteq> 0 \<longrightarrow>
      verdict (match order receipt invoice tolerance) = Mismatch) \<and>
   (receiptAmountOf receipt = 1000 \<and> tolerance = 5 \<longrightarrow>
      (invoiceAmount invoice = 1049 \<longrightarrow>
         verdict (match order receipt invoice tolerance) = WithinTolerance) \<and>
      (invoiceAmount invoice = 1051 \<longrightarrow>
         verdict (match order receipt invoice tolerance) = Mismatch))"
  by (auto simp: match_def Let_def)

theorem match_verdict_witness:
  "receiptAmountOf exampleReceipt = 1000 \<and>
   verdict (match exampleOrder exampleReceipt (exampleInvoice 1049) 5) = WithinTolerance \<and>
   verdict (match exampleOrder exampleReceipt (exampleInvoice 1051) 5) = Mismatch \<and>
   verdict (match exampleOrder exampleReceipt (exampleInvoice 1000) 5) = Matched \<and>
   verdict (match exampleOrder \<lparr>receiptId = ''GRN-0'', receiptLines = []\<rparr> (exampleInvoice 1) 5) = Mismatch"
proof -
  have e: "receiptAmountOf \<lparr>receiptId = ''GRN-0'', receiptLines = []\<rparr> = 0"
    by (simp add: receiptAmountOf_def)
  show ?thesis
    using match_verdict [of exampleOrder exampleReceipt "exampleInvoice 1049" 5]
      match_verdict [of exampleOrder exampleReceipt "exampleInvoice 1051" 5]
      match_verdict [of exampleOrder exampleReceipt "exampleInvoice 1000" 5]
      match_verdict [of exampleOrder "\<lparr>receiptId = ''GRN-0'', receiptLines = []\<rparr>" "exampleInvoice 1" 5]
      exampleReceipt_amount e
    by (simp add: exampleInvoice_def)
qed

section \<open>Replays through the idempotency cache\<close>

lemma execute_hit:
  "present now cache key = Some rec \<Longrightarrow>
     execute now key fp operation (cache, w) =
       (if requestFingerprint rec = fp then (Inr (responsePayload rec), (cache, w))
        else (Inl Conflict, (cache, w)))"
  by (simp add: execute_def)

lemma execute_miss:
  "present now cache key = None \<Longrightarrow>
     execute now key fp operation (cache, w) =
       (Inr (fst (operation w)),
        (cache(key \<mapsto> \<lparr>requestFingerprint = fp, responsePayload = fst (operation w),
                         createdAt_i = now, expiresAt = now + ttl\<rparr>),
         snd (operation w)))"
  by (simp add: execute_def Let_def split: prod.split)

lemma present_Some:
  "cache key = Some rec \<Longrightarrow> now < expiresAt rec \<Longrightarrow> present now cache key = Some rec"
  by (simp add: present_def)

lemma retries_hit:
  "cache key = Some rec \<Longrightarrow> requestFingerprint rec = fp \<Longrightarrow> \<forall>t\<in>set ts. t < expiresAt rec \<Longrightarrow>
     retries ts key fp operation (cache, w) =
       (replicate (length ts) (Inr (responsePayload rec)), (cache, w))"
  by (induction ts) (simp_all add: execute_hit present_Some)

text \<open>
  C7: when the key is present and the stored fingerprint equals the request's, \<open>execute\<close>
  returns the stored response and changes neither the cache nor the state the operation
  works on; when the stored fingerprint differs it fails with Conflict, again changing
  nothing. So after a first call on an absent key, which runs the operation once, any
  number of retries before the record expires return the first response and leave the
  state as the one execution of the operation left it.
\<close>

theorem execute_replay:
  "(cache key = Some rec \<and> now < expiresAt rec \<and> requestFingerprint rec = fingerprint \<longrightarrow>
      execute now key fingerprint operation (cache, w) = (Inr (responsePayload rec), (cache, w))) \<and>
   (cache key = Some rec \<and> now < expiresAt rec \<and> requestFingerprint rec \<noteq> fingerprint \<longrightarrow>
      execute now key fingerprint operation (cache, w) = (Inl Conflict, (cache, w))) \<and>
   (present now cache key = None \<and> (\<forall>t\<in>set ts. t < now + ttl) \<longrightarrow>
      fst (execute now key fingerprint operation (cache, w)) = Inr (fst (operation w)) \<and>
      snd (snd (execute now key fingerprint operation (cache, w))) = snd (operation w) \<and>
      retries ts key fingerprint operation (snd (execute now key fingerprint operation (cache, w))) =
        (replicate (length ts) (Inr (fst (operation w))),
         snd (execute now key fingerprint operation (cache, w))))"
proof (intro conjI impI)
  assume "cache key = Some rec \<and> now < expiresAt rec \<and> requestFingerprint rec = fingerprint"
  then show "execute now key fingerprint operation (cache, w) = (Inr (responsePayload rec), (cache, w))"
    by (simp add: execute_hit present_Some)
next
  assume "cache key = Some rec \<and> now < expiresAt rec \<and> requestFingerprint rec \<noteq> fingerprint"
  then show "execute now key fingerprint operation (cache, w) = (Inl Conflict, (cache, w))"
    by (simp add: execute_hit present_Some)
next
  assume a: "present now cache key = None \<and> (\<forall>t\<in>set ts. t < now + ttl)"
  then show "fst (execute now key fingerprint operation (cache, w)) = Inr (fst (operation w))"
    by (simp add: execute_miss)
  from a show "snd (snd (execute now key fingerprint operation (cache, w))) = snd (operation w)"
    by (simp add: execute_miss)
  let ?rec = "\<lparr>requestFingerprint = fingerprint, responsePayload = fst (operation w),
               createdAt_i = now, expiresAt = now + ttl\<rparr>"
  have "retries ts key fingerprint operation (cache(key \<mapsto> ?rec), snd (operation w)) =
          (replicate (length ts) (Inr (responsePayload ?rec)), (cache(key \<mapsto> ?rec), snd (operation w)))"
    using a by (intro retries_hit) simp_all
  with a show "retries ts key fingerprint operation
       (snd (execute now key fingerprint operation (cache, w))) =
      (replicate (length ts) (Inr (fst (operation w))),
       snd (execute now key fingerprint operation (cache, w)))"
    by (simp add: execute_miss)
qed

theorem execute_replay_witness:
  "present 100 Map.empty ''K1'' = (None :: string IdempotencyRecord option) \<and>
   101 < 100 + ttl \<and> 200 < 100 + ttl \<and> 5000 < 100 + ttl \<and>
   snd (snd (execute 100 ''K1'' ''F1'' countingOperation (Map.empty, 0))) = 1 \<and>
   retries [101, 200, 5000] ''K1'' ''F1'' countingOperation
       (snd (execute 100 ''K1'' ''F1'' countingOperation (Map.empty, 0))) =
     ([Inr ''created'', Inr ''created'', Inr ''created''],
      snd (execute 100 ''K1'' ''F1'' countingOperation (Map.empty, 0))) \<and>
   execute 200 ''K1'' ''F2'' countingOperation
       (snd (execute 100 ''K1'' ''F1'' countingOperation (Map.empty, 0))) =
     (Inl Conflict, snd (execute 100 ''K1'' ''F1'' countingOperation (Map.empty, 0)))"
proof -
  have h: "present 100 Map.empty ''K1'' = (None :: string IdempotencyRecord option) \<and>
     (\<forall>t\<in>set [101, 200, 5000 :: nat]. t < 100 + ttl)"
    by (simp add: present_def ttl_def)
  let ?rec = "\<lparr>requestFingerprint = ''F1'', responsePayload = ''created'',
               createdAt_i = 100, expiresAt = 100 + ttl\<rparr>"
  have s1: "snd (execute 100 ''K1'' ''F1'' countingOperation (Map.empty, 0)) =
      ((Map.empty :: string Cache)(''K1'' \<mapsto> ?rec), 1)"
    by (simp add: execute_def present_def countingOperation_def)
  have c: "((Map.empty :: string Cache)(''K1'' \<mapsto> ?rec)) ''K1'' = Some ?rec \<and> 200 < expiresAt ?rec \<and>
      requestFingerprint ?rec \<noteq> ''F2''"
    by (simp add: ttl_def)
  from execute_replay [of Map.empty "''K1''" ?rec 100 "''F1''" countingOperation 0 "[101, 200, 5000]",
      THEN conjunct2, THEN conjunct2, rule_format, OF h]
  have first: "snd (snd (execute 100 ''K1'' ''F1'' countingOperation (Map.empty, 0))) = 1"
    and again: "retries [101, 200, 5000] ''K1'' ''F1'' countingOperation
       (snd (execute 100 ''K1'' ''F1'' countingOperation (Map.empty, 0))) =
     ([Inr ''created'', Inr ''created'', Inr ''created''],
      snd (execute 100 ''K1'' ''F1'' countingOperation (Map.empty, 0)))"
    by (simp_all add: countingOperation_def numeral_3_eq_3)
  from execute_replay [of "(Map.empty :: string Cache)(''K1'' \<mapsto> ?rec)" "''K1''" ?rec 200 "''F2''"
      countingOperation 1 "[]", THEN conjunct2, THEN conjunct1, rule_format, OF c]
  have conflict: "execute 200 ''K1'' ''F2'' countingOperation
       (snd (execute 100 ''K1'' ''F1'' countingOperation (Map.empty, 0))) =
     (Inl Conflict, snd (execute 100 ''K1'' ''F1'' countingOperation (Map.empty, 0)))"
    by (simp add: s1)
  have "101 < 100 + ttl \<and> 200 < 100 + ttl \<and> 5000 < 100 + ttl"
    by (simp add: ttl_def)
  with h first again conflict show ?thesis by blast
qed

end
